theory Spec2Isabelle
  imports Complex_Main "HOL-Library.Log_Nat"
begin

section \<open>The sale-transaction engine of app.py\<close>

text \<open>
  This theory embeds the POST branch of the view \<^verbatim>\<open>new_sale\<close> (src/app.py, lines
  411 to 516) together with the tables of \<^verbatim>\<open>init_db\<close> it reads and writes.

  Numbers: the columns are SQLite REAL and the form values go through Python's
  \<^verbatim>\<open>float\<close>, so every number is an IEEE 754 double. A finite double is modelled
  by the rational it denotes, and an arithmetic operation by the exact result rounded
  to the nearest double (subsection Doubles). Infinities, NaN, the sign of zero and the
  bounds of the exponent are outside the model, and so are item ids beyond SQLite's
  64-bit integers, on which the database binding raises OverflowError.
\<close>

subsection \<open>Doubles\<close>

text \<open>Rounding to an integer, ties to the even neighbour.\<close>

definition round_half_even :: "rat \<Rightarrow> int" where
  "round_half_even y =
    (let f = \<lfloor>y\<rfloor>; r = y - of_int f
     in if r < 1 / 2 then f else if 1 / 2 < r then f + 1 else if even f then f else f + 1)"

text \<open>
  The double nearest to a rational, ties to even: with \<open>2 powi e \<le> \<bar>x\<bar> < 2 powi (e + 1)\<close>
  the doubles around \<open>x\<close> are the multiples of \<open>2 powi (e - 52)\<close>, a significand of 53
  bits. The exponent \<open>e\<close> is found from the bit lengths of numerator and denominator.
\<close>

definition fl :: "rat \<Rightarrow> rat" where
  "fl x =
    (if x = 0 then 0
     else
       let a = \<bar>x\<bar>;
           k = bitlen (fst (quotient_of a)) - bitlen (snd (quotient_of a));
           e = (if 2 powi k \<le> a then k else k - 1);
           u = 2 powi (e - 52)
       in sgn x * of_int (round_half_even (a / u)) * u)"

text \<open>The operations \<^verbatim>\<open>*\<close>, \<^verbatim>\<open>+\<close> and \<^verbatim>\<open>-\<close> of Python floats and of SQLite REAL values.\<close>

definition fmul :: "rat \<Rightarrow> rat \<Rightarrow> rat" where
  "fmul x y = fl (x * y)"

definition fadd :: "rat \<Rightarrow> rat \<Rightarrow> rat" where
  "fadd x y = fl (x + y)"

definition fsub :: "rat \<Rightarrow> rat \<Rightarrow> rat" where
  "fsub x y = fl (x - y)"

subsection \<open>Tables\<close>

text \<open>A row of \<^verbatim>\<open>meat_items\<close>; the primary key \<^verbatim>\<open>id\<close> is the key of the map below.\<close>

record meat_item =
  mi_name :: string
  mi_unit :: string
  mi_price_per_unit :: rat
  mi_stock_quantity :: rat

text \<open>A row of \<^verbatim>\<open>sales\<close>; \<^verbatim>\<open>customer_name\<close> is nullable.\<close>

record sale =
  s_id :: int
  s_sale_datetime :: string
  s_user_id :: int
  s_customer_name :: "string option"
  s_total_amount :: rat

text \<open>A row of \<^verbatim>\<open>sale_items\<close>.\<close>

record sale_item =
  si_id :: int
  si_sale_id :: int
  si_meat_item_id :: int
  si_quantity :: rat
  si_unit_price :: rat
  si_line_total :: rat

text \<open>
  The database file. The two counters stand for SQLite's \<^verbatim>\<open>sqlite_sequence\<close> entries
  of the AUTOINCREMENT keys of \<^verbatim>\<open>sales\<close> and \<^verbatim>\<open>sale_items\<close>: an insert takes the
  counter plus one as the new row's id.
\<close>

record db =
  meat_items :: "int \<rightharpoonup> meat_item"
  sales :: "sale list"
  sale_items :: "sale_item list"
  sales_seq :: int
  sale_items_seq :: int

subsection \<open>The posted form\<close>

text \<open>
  A value of the form list \<^verbatim>\<open>item_id\<close>, classified by what the view does with the
  string: the empty string is falsy and the line is skipped; on any other string
  \<^verbatim>\<open>int(item_id)\<close> either raises ValueError or yields an integer.
\<close>

datatype item_id_field = Blank | NotInt | IntStr int

text \<open>
  A value of the form lists \<^verbatim>\<open>quantity\<close> and \<^verbatim>\<open>unit_price\<close> is given by the result
  of \<^verbatim>\<open>float\<close> on it: \<open>None\<close> when it raises ValueError. The field
  \<open>customer_name\<close> is the form's value after \<^verbatim>\<open>strip()\<close>.
\<close>

record sale_form =
  customer_name :: string
  item_ids :: "item_id_field list"
  quantities :: "rat option list"
  unit_prices :: "rat option list"

text \<open>An entry of the list \<^verbatim>\<open>line_items\<close> built by the validation loop.\<close>

record line_item =
  li_meat_item_id :: int
  li_name :: string
  li_quantity :: rat
  li_unit_price :: rat
  li_line_total :: rat

text \<open>Exceptions the view does not catch.\<close>

datatype py_exn = IndexError | ValueError

text \<open>
  What the request ends in: the error flashed before the form is rendered again, the
  redirect to the receipt of the new sale, or an uncaught exception.
\<close>

datatype response = Rejected string | Recorded int | Raised py_exn

subsection \<open>Validation loop (lines 418 to 466)\<close>

text \<open>What one pass through the loop body does.\<close>

datatype line_step = Continue | Break string | Append line_item | Raise py_exn

definition check_line ::
  "(int \<rightharpoonup> meat_item) \<Rightarrow> rat option list \<Rightarrow> rat option list \<Rightarrow> nat \<Rightarrow> item_id_field \<Rightarrow> line_step"
where
  "check_line mi qs ps idx item_id =
    (if item_id = Blank then Continue
     else if length qs \<le> idx then Raise IndexError
     else if length ps \<le> idx then Raise IndexError
     else (case qs ! idx of
        None \<Rightarrow> Break ''Quantity and price must be numeric.''
      | Some qty_val \<Rightarrow>
         (case ps ! idx of
            None \<Rightarrow> Break ''Quantity and price must be numeric.''
          | Some price_val \<Rightarrow>
             if qty_val \<le> 0 \<or> price_val < 0
             then Break ''Quantity must be positive and price must be non-negative.''
             else (case item_id of
                Blank \<Rightarrow> Continue
              | NotInt \<Rightarrow> Raise ValueError
              | IntStr n \<Rightarrow>
                 (case mi n of
                    None \<Rightarrow> Break ''Invalid meat item.''
                  | Some item_row \<Rightarrow>
                     if qty_val > mi_stock_quantity item_row
                     then Break (''Not enough stock for '' @ mi_name item_row @ ''.'')
                     else Append \<lparr>li_meat_item_id = n, li_name = mi_name item_row,
                            li_quantity = qty_val, li_unit_price = price_val,
                            li_line_total = fmul qty_val price_val\<rparr>)))))"

text \<open>
  The loop over \<^verbatim>\<open>enumerate(item_ids)\<close>, threading \<^verbatim>\<open>error\<close>, \<^verbatim>\<open>line_items\<close> and
  \<^verbatim>\<open>total_amount\<close>.
\<close>

fun line_loop ::
  "(int \<rightharpoonup> meat_item) \<Rightarrow> rat option list \<Rightarrow> rat option list \<Rightarrow> (nat \<times> item_id_field) list
    \<Rightarrow> string option \<times> line_item list \<times> rat
    \<Rightarrow> py_exn + (string option \<times> line_item list \<times> rat)"
where
  "line_loop mi qs ps [] acc = Inr acc"
| "line_loop mi qs ps ((idx, item_id) # rest) (error, line_items, total_amount) =
    (case check_line mi qs ps idx item_id of
       Continue \<Rightarrow> line_loop mi qs ps rest (error, line_items, total_amount)
     | Break msg \<Rightarrow> Inr (Some msg, line_items, total_amount)
     | Append li \<Rightarrow>
         line_loop mi qs ps rest
           (error, line_items @ [li], fadd total_amount (li_line_total li))
     | Raise e \<Rightarrow> Inl e)"

subsection \<open>Persisting the sale (lines 474 to 513)\<close>

text \<open>\<^verbatim>\<open>INSERT INTO sales\<close>, returning \<^verbatim>\<open>cur.lastrowid\<close>.\<close>

definition insert_sale :: "string \<Rightarrow> int \<Rightarrow> string option \<Rightarrow> rat \<Rightarrow> db \<Rightarrow> int \<times> db" where
  "insert_sale now_iso user_id customer total_amount d =
    (let sale_id = sales_seq d + 1
     in (sale_id,
         d\<lparr>sales := sales d @ [\<lparr>s_id = sale_id, s_sale_datetime = now_iso, s_user_id = user_id,
                                 s_customer_name = customer, s_total_amount = total_amount\<rparr>],
           sales_seq := sale_id\<rparr>))"

text \<open>\<^verbatim>\<open>INSERT INTO sale_items\<close> for one entry of \<^verbatim>\<open>line_items\<close>.\<close>

definition insert_sale_item :: "int \<Rightarrow> line_item \<Rightarrow> db \<Rightarrow> db" where
  "insert_sale_item sale_id li d =
    d\<lparr>sale_items := sale_items d @
         [\<lparr>si_id = sale_items_seq d + 1, si_sale_id = sale_id,
           si_meat_item_id = li_meat_item_id li, si_quantity = li_quantity li,
           si_unit_price = li_unit_price li, si_line_total = li_line_total li\<rparr>],
      sale_items_seq := sale_items_seq d + 1\<rparr>"

text \<open>
  \<^verbatim>\<open>UPDATE meat_items SET stock_quantity = stock_quantity - ? WHERE id = ?\<close>: no row
  is touched when the id is absent.
\<close>

definition deduct_stock :: "rat \<Rightarrow> int \<Rightarrow> db \<Rightarrow> db" where
  "deduct_stock qty meat_item_id d =
    (case meat_items d meat_item_id of
       None \<Rightarrow> d
     | Some r \<Rightarrow>
         d\<lparr>meat_items := (meat_items d)
              (meat_item_id \<mapsto> r\<lparr>mi_stock_quantity := fsub (mi_stock_quantity r) qty\<rparr>)\<rparr>)"

text \<open>The loop \<^verbatim>\<open>for li in line_items\<close>.\<close>

fun persist_lines :: "int \<Rightarrow> line_item list \<Rightarrow> db \<Rightarrow> db" where
  "persist_lines sale_id [] d = d"
| "persist_lines sale_id (li # lis) d =
    persist_lines sale_id lis
      (deduct_stock (li_quantity li) (li_meat_item_id li) (insert_sale_item sale_id li d))"

definition persist_sale ::
  "string \<Rightarrow> int \<Rightarrow> string \<Rightarrow> line_item list \<Rightarrow> rat \<Rightarrow> db \<Rightarrow> int \<times> db"
where
  "persist_sale now_iso user_id customer line_items total_amount d =
    (case insert_sale now_iso user_id (if customer = [] then None else Some customer)
            total_amount d of
       (sale_id, d1) \<Rightarrow> (sale_id, persist_lines sale_id line_items d1))"

subsection \<open>The view\<close>

text \<open>
  The POST branch of \<^verbatim>\<open>new_sale\<close>. \<open>now_iso\<close> is \<^verbatim>\<open>datetime.now().isoformat()\<close> and
  \<open>user_id\<close> is \<^verbatim>\<open>g.user["id"]\<close>. \<^verbatim>\<open>if error:\<close> is Python truthiness: \<^verbatim>\<open>None\<close> and
  the empty string both let the sale through.
\<close>

definition new_sale :: "string \<Rightarrow> int \<Rightarrow> sale_form \<Rightarrow> db \<Rightarrow> response \<times> db" where
  "new_sale now_iso user_id form d =
    (case line_loop (meat_items d) (quantities form) (unit_prices form)
            (enumerate 0 (item_ids form))
            (if item_ids form = [] then Some ''At least one item is required.'' else None,
             [], 0) of
       Inl e \<Rightarrow> (Raised e, d)
     | Inr (error, line_items, total_amount) \<Rightarrow>
         (if error \<noteq> None \<and> error \<noteq> Some []
          then (Rejected (the error), d)
          else (case persist_sale now_iso user_id (customer_name form) line_items
                       total_amount d of
                  (sale_id, d') \<Rightarrow> (Recorded sale_id, d'))))"

subsection \<open>The two phases of the view\<close>

text \<open>
  The view first reads (lines 418 to 466, each item over a connection of its own) and
  then writes (lines 474 to 513, on another connection). \<open>validate\<close> is the first
  phase, \<open>commit\<close> the decision of line 468 and the second phase, and \<open>finish\<close>
  passes an exception of the first phase on.
\<close>

definition validate ::
  "sale_form \<Rightarrow> db \<Rightarrow> py_exn + (string option \<times> line_item list \<times> rat)"
where
  "validate form d =
    line_loop (meat_items d) (quantities form) (unit_prices form)
      (enumerate 0 (item_ids form))
      (if item_ids form = [] then Some ''At least one item is required.'' else None, [], 0)"

definition commit ::
  "string \<Rightarrow> int \<Rightarrow> sale_form \<Rightarrow> string option \<times> line_item list \<times> rat \<Rightarrow> db
    \<Rightarrow> response \<times> db"
where
  "commit now_iso user_id form v d =
    (case v of (error, line_items, total_amount) \<Rightarrow>
       if error \<noteq> None \<and> error \<noteq> Some []
       then (Rejected (the error), d)
       else (case persist_sale now_iso user_id (customer_name form) line_items
                    total_amount d of
               (sale_id, d') \<Rightarrow> (Recorded sale_id, d')))"

definition finish ::
  "string \<Rightarrow> int \<Rightarrow> sale_form \<Rightarrow> py_exn + (string option \<times> line_item list \<times> rat) \<Rightarrow> db
    \<Rightarrow> response \<times> db"
where
  "finish now_iso user_id form v d =
    (case v of Inl e \<Rightarrow> (Raised e, d) | Inr x \<Rightarrow> commit now_iso user_id form x d)"

text \<open>
  Two requests A and B, served one after the other, and served so that both have read
  before either writes.
\<close>

definition serial ::
  "string \<Rightarrow> int \<Rightarrow> sale_form \<Rightarrow> string \<Rightarrow> int \<Rightarrow> sale_form \<Rightarrow> db
    \<Rightarrow> response \<times> response \<times> db"
where
  "serial now_a user_a form_a now_b user_b form_b d =
    (case new_sale now_a user_a form_a d of
       (resp_a, d1) \<Rightarrow>
         (case new_sale now_b user_b form_b d1 of
            (resp_b, d2) \<Rightarrow> (resp_a, resp_b, d2)))"

definition interleaved ::
  "string \<Rightarrow> int \<Rightarrow> sale_form \<Rightarrow> string \<Rightarrow> int \<Rightarrow> sale_form \<Rightarrow> db
    \<Rightarrow> response \<times> response \<times> db"
where
  "interleaved now_a user_a form_a now_b user_b form_b d =
    (let v_a = validate form_a d;
         v_b = validate form_b d
     in case finish now_a user_a form_a v_a d of
          (resp_a, d1) \<Rightarrow>
            (case finish now_b user_b form_b v_b d1 of
               (resp_b, d2) \<Rightarrow> (resp_a, resp_b, d2)))"

subsection \<open>The seeded catalog\<close>

text \<open>The rows \<^verbatim>\<open>ensure_sample_data\<close> inserts into an empty database, ids 1 to 4.\<close>

definition sample_db :: db where
  "sample_db =
    \<lparr>meat_items =
       [1 \<mapsto> \<lparr>mi_name = ''Beef'', mi_unit = ''kg'', mi_price_per_unit = 25 / 2,
               mi_stock_quantity = 50\<rparr>,
        2 \<mapsto> \<lparr>mi_name = ''Chicken'', mi_unit = ''kg'', mi_price_per_unit = 6,
               mi_stock_quantity = 80\<rparr>,
        3 \<mapsto> \<lparr>mi_name = ''Pork'', mi_unit = ''kg'', mi_price_per_unit = 9,
               mi_stock_quantity = 60\<rparr>,
        4 \<mapsto> \<lparr>mi_name = ''Goat'', mi_unit = ''kg'', mi_price_per_unit = 11,
               mi_stock_quantity = 40\<rparr>],
     sales = [], sale_items = [], sales_seq = 0, sale_items_seq = 0\<rparr>"

text \<open>A form with one line for each triple (item id, quantity, unit price).\<close>

definition form_of :: "string \<Rightarrow> (int \<times> rat \<times> rat) list \<Rightarrow> sale_form" where
  "form_of customer ls =
    \<lparr>customer_name = customer, item_ids = map (\<lambda>(n, q, p). IntStr n) ls,
     quantities = map (\<lambda>(n, q, p). Some q) ls, unit_prices = map (\<lambda>(n, q, p). Some p) ls\<rparr>"

subsection \<open>Notions used to state the properties\<close>

text \<open>
  The lines of a request as the specification reads them: one triple (item id, quantity,
  unit price) for each position of the form whose item id is not blank, in the order of
  the form.
\<close>

definition form_line ::
  "rat option list \<Rightarrow> rat option list \<Rightarrow> nat \<times> item_id_field \<Rightarrow> (int \<times> rat \<times> rat) list"
where
  "form_line qs ps = (\<lambda>(idx, item_id).
     (case item_id of
        IntStr n \<Rightarrow>
          (if idx < length qs \<and> idx < length ps
           then (case (qs ! idx, ps ! idx) of
                   (Some q, Some p) \<Rightarrow> [(n, q, p)]
                 | _ \<Rightarrow> [])
           else [])
      | _ \<Rightarrow> []))"

definition requested_lines :: "sale_form \<Rightarrow> (int \<times> rat \<times> rat) list" where
  "requested_lines form =
    concat (map (form_line (quantities form) (unit_prices form)) (enumerate 0 (item_ids form)))"

text \<open>The quantities a request asks of item \<open>i\<close>, in the order of its lines.\<close>

definition requested_quantities :: "sale_form \<Rightarrow> int \<Rightarrow> rat list" where
  "requested_quantities form i =
    map (\<lambda>l. fst (snd l)) (filter (\<lambda>l. fst l = i) (requested_lines form))"

text \<open>
  A line that validation lets through: it is blank, or its quantity and price are
  numeric, the quantity positive, the price non-negative, the item in the catalog and
  the quantity no more than the item's stock.
\<close>

definition line_valid ::
  "(int \<rightharpoonup> meat_item) \<Rightarrow> rat option list \<Rightarrow> rat option list \<Rightarrow> nat \<Rightarrow> item_id_field \<Rightarrow> bool"
where
  "line_valid mi qs ps idx item_id =
    (case item_id of
       Blank \<Rightarrow> True
     | NotInt \<Rightarrow> False
     | IntStr n \<Rightarrow>
         idx < length qs \<and> idx < length ps \<and>
         (case (qs ! idx, ps ! idx, mi n) of
            (Some q, Some p, Some r) \<Rightarrow> 0 < q \<and> 0 \<le> p \<and> q \<le> mi_stock_quantity r
          | _ \<Rightarrow> False))"

text \<open>The entries the loop appends for a list of positions, and what a line item asks.\<close>

definition accepted ::
  "(int \<rightharpoonup> meat_item) \<Rightarrow> rat option list \<Rightarrow> rat option list \<Rightarrow> (nat \<times> item_id_field) list
    \<Rightarrow> line_item list"
where
  "accepted mi qs ps xs =
     concat (map (\<lambda>(idx, item_id).
        case check_line mi qs ps idx item_id of Append li \<Rightarrow> [li] | _ \<Rightarrow> []) xs)"

definition line_key :: "line_item \<Rightarrow> int \<times> rat \<times> rat" where
  "line_key li = (li_meat_item_id li, li_quantity li, li_unit_price li)"

text \<open>The rows of \<^verbatim>\<open>sale_items\<close> written for a list of line items, from a counter on.\<close>

fun rows_of :: "int \<Rightarrow> int \<Rightarrow> line_item list \<Rightarrow> sale_item list" where
  "rows_of sale_id seq [] = []"
| "rows_of sale_id seq (li # lis) =
    \<lparr>si_id = seq + 1, si_sale_id = sale_id, si_meat_item_id = li_meat_item_id li,
     si_quantity = li_quantity li, si_unit_price = li_unit_price li,
     si_line_total = li_line_total li\<rparr> # rows_of sale_id (seq + 1) lis"

section \<open>Properties\<close>

subsection \<open>The loop body\<close>

lemma check_line_Break_nonempty: "check_line mi qs ps idx x = Break msg \<Longrightarrow> msg \<noteq> []"
  by (auto simp: check_line_def split: if_splits option.splits item_id_field.splits)

lemma check_line_Append:
  "check_line mi qs ps idx x = Append li \<Longrightarrow>
     \<exists>n q p r. x = IntStr n \<and> idx < length qs \<and> idx < length ps
       \<and> qs ! idx = Some q \<and> ps ! idx = Some p
       \<and> 0 < q \<and> 0 \<le> p \<and> mi n = Some r \<and> q \<le> mi_stock_quantity r
       \<and> li = \<lparr>li_meat_item_id = n, li_name = mi_name r, li_quantity = q, li_unit_price = p,
               li_line_total = fmul q p\<rparr>"
  by (auto simp: check_line_def split: if_splits option.splits item_id_field.splits)

lemma check_line_Continue: "check_line mi qs ps idx x = Continue \<Longrightarrow> x = Blank"
  by (auto simp: check_line_def split: if_splits option.splits item_id_field.splits)

lemma accepted_Nil: "accepted mi qs ps [] = []"
  by (simp add: accepted_def)

lemma accepted_Cons:
  "accepted mi qs ps ((idx, x) # xs) =
     (case check_line mi qs ps idx x of Append li \<Rightarrow> [li] | _ \<Rightarrow> []) @ accepted mi qs ps xs"
  by (simp add: accepted_def)

lemma accepted_line_total:
  "li \<in> set (accepted mi qs ps xs) \<Longrightarrow>
     li_line_total li = fmul (li_quantity li) (li_unit_price li)"
  by (induction xs)
     (auto simp: accepted_Nil accepted_Cons split: line_step.splits
           dest!: check_line_Append[OF sym])

subsection \<open>The validation loop\<close>

text \<open>
  When the loop ends with a falsy \<^verbatim>\<open>error\<close>, no pass has broken out of it: the error
  is the one it started with, every non-blank position has been appended, and the line
  totals have been added to \<^verbatim>\<open>total_amount\<close> one after the other.
\<close>

lemma line_loop_falsy:
  assumes "line_loop mi qs ps xs (e, lis0, t0) = Inr (e', lis, t)"
    and "e' = None \<or> e' = Some []"
  shows "e' = e \<and> lis = lis0 @ accepted mi qs ps xs
    \<and> t = foldl fadd t0 (map li_line_total (accepted mi qs ps xs))
    \<and> map line_key (accepted mi qs ps xs) = concat (map (form_line qs ps) xs)"
  using assms
proof (induction xs arbitrary: lis0 t0)
  case Nil
  then show ?case by (simp add: accepted_Nil)
next
  case (Cons a xs)
  obtain idx x where a: "a = (idx, x)" by (cases a)
  show ?case
  proof (cases "check_line mi qs ps idx x")
    case Continue
    then have "x = Blank" by (rule check_line_Continue)
    with Cons a Continue show ?thesis
      by (simp add: accepted_Cons form_line_def)
  next
    case (Break msg)
    with Cons.prems a check_line_Break_nonempty[OF Break] show ?thesis by auto
  next
    case (Append li)
    from check_line_Append[OF Append] have "form_line qs ps (idx, x) = [line_key li]"
      by (auto simp: form_line_def line_key_def)
    with Cons.IH[of "lis0 @ [li]" "fadd t0 (li_line_total li)"] Cons.prems a Append
    show ?thesis
      by (simp add: accepted_Cons)
  next
    case (Raise e)
    with Cons.prems a show ?thesis by simp
  qed
qed

subsection \<open>The writes\<close>

lemma persist_lines_sale_items:
  "sale_items (persist_lines sale_id lis d) = sale_items d @ rows_of sale_id (sale_items_seq d) lis"
  by (induction lis arbitrary: d)
     (auto simp: insert_sale_item_def deduct_stock_def split: option.splits)

lemma persist_lines_sales:
  "sales (persist_lines sale_id lis d) = sales d
    \<and> sales_seq (persist_lines sale_id lis d) = sales_seq d"
  by (induction lis arbitrary: d)
     (auto simp: insert_sale_item_def deduct_stock_def split: option.splits)

text \<open>The stock of an item after the loop: the quantities subtracted one after the other.\<close>

lemma persist_lines_meat_items:
  "meat_items (persist_lines sale_id lis d) i =
     map_option (\<lambda>r. r\<lparr>mi_stock_quantity :=
         foldl fsub (mi_stock_quantity r)
           (map li_quantity (filter (\<lambda>li. li_meat_item_id li = i) lis))\<rparr>)
       (meat_items d i)"
proof (induction lis arbitrary: d)
  case Nil
  show ?case by (cases "meat_items d i") simp_all
next
  case (Cons li lis)
  show ?case
    by (cases "meat_items d i"; cases "meat_items d (li_meat_item_id li)")
       (auto simp: Cons.IH insert_sale_item_def deduct_stock_def)
qed

lemma persist_sale_result:
  "persist_sale now_iso user_id customer lis t d =
     (sales_seq d + 1,
      persist_lines (sales_seq d + 1) lis
        (d\<lparr>sales := sales d @ [\<lparr>s_id = sales_seq d + 1, s_sale_datetime = now_iso,
               s_user_id = user_id,
               s_customer_name = (if customer = [] then None else Some customer),
               s_total_amount = t\<rparr>],
           sales_seq := sales_seq d + 1\<rparr>))"
  by (simp add: persist_sale_def insert_sale_def Let_def)

lemma rows_of_keys:
  "map (\<lambda>r. (si_meat_item_id r, si_quantity r, si_unit_price r)) (rows_of sale_id seq lis)
     = map line_key lis"
  by (induction lis arbitrary: seq) (auto simp: line_key_def)

lemma rows_of_sale_id: "r \<in> set (rows_of sale_id seq lis) \<Longrightarrow> si_sale_id r = sale_id"
  by (induction lis arbitrary: seq) auto

lemma rows_of_line_total:
  "\<forall>li \<in> set lis. li_line_total li = fmul (li_quantity li) (li_unit_price li) \<Longrightarrow>
   r \<in> set (rows_of sale_id seq lis) \<Longrightarrow>
   si_line_total r = fmul (si_quantity r) (si_unit_price r)"
  by (induction lis arbitrary: seq) auto

lemma rows_of_totals:
  "map si_line_total (rows_of sale_id seq lis) = map li_line_total lis"
  by (induction lis arbitrary: seq) auto

lemma quantities_line_key:
  "map li_quantity (filter (\<lambda>li. li_meat_item_id li = i) lis)
     = map (\<lambda>l. fst (snd l)) (filter (\<lambda>l. fst l = i) (map line_key lis))"
  by (induction lis) (auto simp: line_key_def)

lemma requested_quantities_unreferenced:
  "i \<notin> fst ` set (requested_lines form) \<Longrightarrow> requested_quantities form i = []"
  by (auto simp: requested_quantities_def filter_empty_conv)

subsection \<open>The view, when it records a sale\<close>

lemma new_sale_validate_commit:
  "new_sale now_iso user_id form d = finish now_iso user_id form (validate form d) d"
  by (simp add: new_sale_def finish_def validate_def commit_def split: sum.splits prod.splits)

text \<open>
  A recorded sale has gone through \<open>persist_sale\<close> with the entries the loop accepted,
  and these are the lines of the request.
\<close>

lemma new_sale_Recorded:
  assumes "new_sale now_iso user_id form d = (Recorded sale_id, d')"
  shows "persist_sale now_iso user_id (customer_name form)
           (accepted (meat_items d) (quantities form) (unit_prices form)
              (enumerate 0 (item_ids form)))
           (foldl fadd 0 (map li_line_total
              (accepted (meat_items d) (quantities form) (unit_prices form)
                 (enumerate 0 (item_ids form)))))
           d = (sale_id, d')
     \<and> map line_key (accepted (meat_items d) (quantities form) (unit_prices form)
           (enumerate 0 (item_ids form))) = requested_lines form"
proof -
  let ?e0 = "if item_ids form = [] then Some ''At least one item is required.'' else None"
  from assms obtain e lis t where
    loop: "line_loop (meat_items d) (quantities form) (unit_prices form)
             (enumerate 0 (item_ids form)) (?e0, [], 0) = Inr (e, lis, t)"
    and falsy: "e = None \<or> e = Some []"
    and persist: "persist_sale now_iso user_id (customer_name form) lis t d = (sale_id, d')"
    by (auto simp: new_sale_def split: sum.splits prod.splits if_splits)
  from line_loop_falsy[OF loop falsy] persist show ?thesis
    by (simp add: requested_lines_def)
qed

subsection \<open>Lines that pass and lines that are blank\<close>

lemma line_loop_blank:
  "\<forall>p \<in> set xs. snd p = Blank \<Longrightarrow> line_loop mi qs ps xs acc = Inr acc"
proof (induction xs)
  case Nil
  show ?case by simp
next
  case (Cons a xs)
  obtain idx x where a: "a = (idx, x)" by (cases a)
  obtain e lis t where acc: "acc = (e, lis, t)" by (cases acc)
  from Cons a acc show ?case by (simp add: check_line_def)
qed

lemma line_valid_step:
  "line_valid mi qs ps idx x \<Longrightarrow>
     check_line mi qs ps idx x = Continue \<or> (\<exists>li. check_line mi qs ps idx x = Append li)"
  by (auto simp: line_valid_def check_line_def
           split: item_id_field.splits option.splits if_splits)

lemma line_loop_valid_prefix:
  "\<forall>p \<in> set pre. line_valid mi qs ps (fst p) (snd p) \<Longrightarrow>
     \<exists>lis' t'. line_loop mi qs ps (pre @ rest) (e, lis, t)
                = line_loop mi qs ps rest (e, lis', t')"
proof (induction pre arbitrary: lis t)
  case Nil
  show ?case by auto
next
  case (Cons a pre)
  obtain idx x where a: "a = (idx, x)" by (cases a)
  from Cons.prems a have "line_valid mi qs ps idx x" by simp
  from line_valid_step[OF this] show ?case
  proof
    assume "check_line mi qs ps idx x = Continue"
    with Cons.IH[of lis t] Cons.prems a show ?thesis by simp
  next
    assume "\<exists>li. check_line mi qs ps idx x = Append li"
    then obtain li where "check_line mi qs ps idx x = Append li" ..
    with Cons.IH[of "lis @ [li]" "fadd t (li_line_total li)"] Cons.prems a
    show ?thesis by simp
  qed
qed

subsection \<open>Doubles met in the examples\<close>

lemma fl_examples:
  "fl 0 = 0" "fl 2 = 2" "fl 10 = 10" "fl 12 = 12" "fl 20 = 20" "fl 45 = 45"
  "fl (- 3) = - 3" "fl (- 10) = - 10" "fl (- 50) = - 50"
  "fl (125 / 2) = 125 / 2" "fl (149 / 2) = 149 / 2"
  by code_simp+

lemmas view_defs = new_sale_def form_of_def sample_db_def check_line_def persist_sale_def
  insert_sale_def insert_sale_item_def deduct_stock_def fmul_def fadd_def fsub_def

section \<open>The claims\<close>

subsection \<open>Stock can go negative\<close>

text \<open>
  C1. The claim is that every item's stock is non-negative before and after every call,
  also when several lines of one sale name the same item. The view compares each line
  with the stock read from the database, which no earlier line of the same request has
  changed yet: with Beef at 50, two lines of 30 each both pass, the sale is recorded and
  the two decrements leave Beef at -10.
\<close>

theorem new_sale_same_item_twice_negative_stock:
  "map_option mi_stock_quantity (meat_items sample_db 1) = Some 50
   \<and> fst (new_sale ''2025-03-01T10:00:00'' 7
            (form_of [] [(1, 30, 25 / 2), (1, 30, 25 / 2)]) sample_db) = Recorded 1
   \<and> map_option mi_stock_quantity
       (meat_items (snd (new_sale ''2025-03-01T10:00:00'' 7
            (form_of [] [(1, 30, 25 / 2), (1, 30, 25 / 2)]) sample_db)) 1) = Some (- 10)"
  by (simp add: view_defs fl_examples)

text \<open>
  C2. The claim is that the decrement made while the sale is persisted fails by itself
  when it would make the stock negative. The UPDATE of lines 503 to 510 has no such
  guard. With Beef at 50 and lines of 40 and 20, both lines pass validation; the first
  decrement leaves 10, the second takes 20 from these 10 and leaves -10, and the sale is
  recorded. Likewise a line of 5 validated against 50 and persisted when the stock has
  dropped to 2 leaves -3.
\<close>

theorem new_sale_commit_does_not_recheck_stock:
  "fst (new_sale ''2025-03-01T10:00:00'' 7
          (form_of [] [(1, 40, 25 / 2), (1, 20, 25 / 2)]) sample_db) = Recorded 1
   \<and> map_option mi_stock_quantity (meat_items (deduct_stock 40 1 sample_db) 1) = Some 10
   \<and> map_option mi_stock_quantity
       (meat_items (deduct_stock 20 1 (deduct_stock 40 1 sample_db)) 1) = Some (- 10)
   \<and> map_option mi_stock_quantity
       (meat_items (snd (new_sale ''2025-03-01T10:00:00'' 7
          (form_of [] [(1, 40, 25 / 2), (1, 20, 25 / 2)]) sample_db)) 1) = Some (- 10)
   \<and> map_option mi_stock_quantity (meat_items (deduct_stock 48 1 sample_db) 1) = Some 2
   \<and> fst (persist_sale ''2025-03-01T10:00:00'' 7 []
        [\<lparr>li_meat_item_id = 1, li_name = ''Beef'', li_quantity = 5, li_unit_price = 25 / 2,
          li_line_total = 125 / 2\<rparr>] (125 / 2) (deduct_stock 48 1 sample_db)) = 1
   \<and> map_option mi_stock_quantity
       (meat_items (snd (persist_sale ''2025-03-01T10:00:00'' 7 []
        [\<lparr>li_meat_item_id = 1, li_name = ''Beef'', li_quantity = 5, li_unit_price = 25 / 2,
          li_line_total = 125 / 2\<rparr>] (125 / 2) (deduct_stock 48 1 sample_db))) 1) = Some (- 3)"
  by (simp add: view_defs fl_examples)

subsection \<open>Two requests at once\<close>

text \<open>
  C6. The claim is that of two concurrent requests, each for the whole stock of an item,
  exactly one is recorded. By \<open>new_sale_validate_commit\<close> a request is its reads
  followed by its writes. When both requests for 50 Beef read before either writes,
  both are recorded and Beef is left at -50; served one after the other, the first is
  recorded, the second is rejected and Beef is left at 0.
\<close>

theorem concurrent_sales_both_recorded:
  "map_option mi_stock_quantity (meat_items sample_db 1) = Some 50
   \<and> fst (interleaved ''2025-03-01T10:00:00'' 7 (form_of [] [(1, 50, 25 / 2)])
             ''2025-03-01T10:00:01'' 8 (form_of [] [(1, 50, 25 / 2)]) sample_db) = Recorded 1
   \<and> fst (snd (interleaved ''2025-03-01T10:00:00'' 7 (form_of [] [(1, 50, 25 / 2)])
             ''2025-03-01T10:00:01'' 8 (form_of [] [(1, 50, 25 / 2)]) sample_db)) = Recorded 2
   \<and> map_option mi_stock_quantity
       (meat_items (snd (snd (interleaved ''2025-03-01T10:00:00'' 7 (form_of [] [(1, 50, 25 / 2)])
             ''2025-03-01T10:00:01'' 8 (form_of [] [(1, 50, 25 / 2)]) sample_db))) 1)
       = Some (- 50)
   \<and> fst (serial ''2025-03-01T10:00:00'' 7 (form_of [] [(1, 50, 25 / 2)])
             ''2025-03-01T10:00:01'' 8 (form_of [] [(1, 50, 25 / 2)]) sample_db) = Recorded 1
   \<and> fst (snd (serial ''2025-03-01T10:00:00'' 7 (form_of [] [(1, 50, 25 / 2)])
             ''2025-03-01T10:00:01'' 8 (form_of [] [(1, 50, 25 / 2)]) sample_db))
       = Rejected ''Not enough stock for Beef.''
   \<and> map_option mi_stock_quantity
       (meat_items (snd (snd (serial ''2025-03-01T10:00:00'' 7 (form_of [] [(1, 50, 25 / 2)])
             ''2025-03-01T10:00:01'' 8 (form_of [] [(1, 50, 25 / 2)]) sample_db))) 1)
       = Some 0"
  by (simp add: interleaved_def serial_def finish_def commit_def validate_def view_defs
        fl_examples)

subsection \<open>Rejected requests\<close>

text \<open>
  C3. Whenever the view answers with an error message, the database after the call is
  the database before it: no row of \<^verbatim>\<open>sales\<close> or \<^verbatim>\<open>sale_items\<close> is written and no stock
  changes.
\<close>

theorem new_sale_rejected_no_mutation:
  "fst (new_sale now_iso user_id form d) = Rejected msg \<Longrightarrow>
   snd (new_sale now_iso user_id form d) = d"
  by (auto simp: new_sale_def split: sum.splits prod.splits if_splits)

theorem new_sale_rejected_no_mutation_witness:
  "fst (new_sale ''2025-03-01T10:00:00'' 7
          (form_of ''Asha'' [(2, 3, 6), (1, 60, 25 / 2)]) sample_db)
     = Rejected ''Not enough stock for Beef.''
   \<and> snd (new_sale ''2025-03-01T10:00:00'' 7
          (form_of ''Asha'' [(2, 3, 6), (1, 60, 25 / 2)]) sample_db)
     = sample_db"
proof -
  have h: "fst (new_sale ''2025-03-01T10:00:00'' 7
             (form_of ''Asha'' [(2, 3, 6), (1, 60, 25 / 2)]) sample_db)
           = Rejected ''Not enough stock for Beef.''"
    by (simp add: new_sale_def form_of_def check_line_def sample_db_def)
  from h new_sale_rejected_no_mutation[OF h] show ?thesis by (rule conjI)
qed

text \<open>
  C9. A request the view rejects is rejected again with the same message when it is
  submitted once more, at any later time, to the database the first call left.
\<close>

theorem new_sale_rejection_repeats:
  assumes "new_sale now_iso user_id form d = (Rejected msg, d')"
  shows "new_sale now_iso' user_id form d' = (Rejected msg, d')"
proof -
  from assms have "d' = d"
    by (auto simp: new_sale_def split: sum.splits prod.splits if_splits)
  with assms show ?thesis
    by (auto simp: new_sale_def split: sum.splits prod.splits if_splits)
qed

theorem new_sale_rejection_repeats_witness:
  "new_sale ''2025-03-01T10:00:00'' 7 (form_of [] [(9, 1, 1)]) sample_db
     = (Rejected ''Invalid meat item.'', sample_db)
   \<and> new_sale ''2025-03-01T10:05:00'' 7 (form_of [] [(9, 1, 1)]) sample_db
     = (Rejected ''Invalid meat item.'', sample_db)"
proof -
  have h: "new_sale ''2025-03-01T10:00:00'' 7 (form_of [] [(9, 1, 1)]) sample_db
     = (Rejected ''Invalid meat item.'', sample_db)"
    by (simp add: new_sale_def form_of_def check_line_def sample_db_def)
  from h new_sale_rejection_repeats[OF h] show ?thesis by (rule conjI)
qed

text \<open>
  C8. A request whose list of lines is empty is rejected with the message
  "At least one item is required." and the database is left as it was.
\<close>

theorem new_sale_empty_order:
  "new_sale now_iso user_id (form\<lparr>item_ids := []\<rparr>) d
     = (Rejected ''At least one item is required.'', d)"
  by (simp add: new_sale_def)

text \<open>
  C7, as amended. When a line asks more than the stock of its item, the lines before it
  pass validation and the line's own quantity is positive and its price non-negative,
  the request is rejected with the message "Not enough stock for <name>.", where <name>
  is the item's name, and the database is left as it was. The message carries the name
  only: neither the quantity asked nor the stock at hand.
\<close>

theorem new_sale_insufficient_stock:
  assumes k: "k < length (item_ids form)"
    and earlier: "\<forall>j<k. line_valid (meat_items d) (quantities form) (unit_prices form) j
                          (item_ids form ! j)"
    and id: "item_ids form ! k = IntStr n"
    and q: "k < length (quantities form)" "quantities form ! k = Some q" "0 < q"
    and p: "k < length (unit_prices form)" "unit_prices form ! k = Some p" "0 \<le> p"
    and row: "meat_items d n = Some item_row"
    and over: "mi_stock_quantity item_row < q"
  shows "new_sale now_iso user_id form d
     = (Rejected (''Not enough stock for '' @ mi_name item_row @ ''.''), d)"
proof -
  let ?mi = "meat_items d" and ?qs = "quantities form" and ?ps = "unit_prices form"
  let ?ids = "item_ids form"
  let ?pre = "enumerate 0 (take k ?ids)"
  let ?rest = "enumerate (Suc k) (drop (Suc k) ?ids)"
  let ?msg = "''Not enough stock for '' @ mi_name item_row @ ''.''"
  have split: "enumerate 0 ?ids = ?pre @ (k, IntStr n) # ?rest"
  proof -
    have "?ids = take k ?ids @ (?ids ! k) # drop (Suc k) ?ids"
      using k by (rule id_take_nth_drop)
    then have "enumerate 0 ?ids = enumerate 0 (take k ?ids @ (?ids ! k) # drop (Suc k) ?ids)"
      by simp
    also have "\<dots> = ?pre @ (k, IntStr n) # ?rest"
      using k id by (simp add: enumerate_append_eq min_def)
    finally show ?thesis .
  qed
  have "\<forall>pr \<in> set ?pre. line_valid ?mi ?qs ?ps (fst pr) (snd pr)"
    using earlier k by (auto simp: in_set_enumerate_eq)
  from line_loop_valid_prefix[OF this]
  obtain e0 lis' t' where
    "line_loop ?mi ?qs ?ps (enumerate 0 ?ids)
        (if ?ids = [] then Some ''At least one item is required.'' else None, [], 0)
      = line_loop ?mi ?qs ?ps ((k, IntStr n) # ?rest) (e0, lis', t')"
    unfolding split by blast
  moreover have "check_line ?mi ?qs ?ps k (IntStr n) = Break ?msg"
    using q p row over by (simp add: check_line_def)
  ultimately have "line_loop ?mi ?qs ?ps (enumerate 0 ?ids)
        (if ?ids = [] then Some ''At least one item is required.'' else None, [], 0)
      = Inr (Some ?msg, lis', t')"
    by simp
  then show ?thesis by (simp add: new_sale_def)
qed

theorem new_sale_insufficient_stock_witness:
  "(1::nat) < length (item_ids (form_of [] [(2, 2, 6), (1, 50, 25 / 2)]))
   \<and> line_valid (meat_items (deduct_stock 5 1 sample_db))
         (quantities (form_of [] [(2, 2, 6), (1, 50, 25 / 2)]))
         (unit_prices (form_of [] [(2, 2, 6), (1, 50, 25 / 2)])) 0
         (item_ids (form_of [] [(2, 2, 6), (1, 50, 25 / 2)]) ! 0)
   \<and> meat_items (deduct_stock 5 1 sample_db) 1
       = Some \<lparr>mi_name = ''Beef'', mi_unit = ''kg'', mi_price_per_unit = 25 / 2,
               mi_stock_quantity = 45\<rparr>
   \<and> new_sale ''2025-03-01T10:00:00'' 7 (form_of [] [(2, 2, 6), (1, 50, 25 / 2)])
       (deduct_stock 5 1 sample_db)
     = (Rejected ''Not enough stock for Beef.'', deduct_stock 5 1 sample_db)"
proof -
  let ?f = "form_of [] [(2, 2, 6), (1, 50, 25 / 2)]"
  let ?d = "deduct_stock 5 1 sample_db"
  let ?beef = "\<lparr>mi_name = ''Beef'', mi_unit = ''kg'', mi_price_per_unit = 25 / 2,
               mi_stock_quantity = 45\<rparr>"
  have k: "(1::nat) < length (item_ids ?f)"
    by (simp add: form_of_def)
  have earlier: "\<forall>j<1. line_valid (meat_items ?d) (quantities ?f) (unit_prices ?f) j
                   (item_ids ?f ! j)"
    by (simp add: line_valid_def form_of_def deduct_stock_def sample_db_def
          fsub_def fl_examples)
  have id: "item_ids ?f ! 1 = IntStr 1"
    and q: "1 < length (quantities ?f)" "quantities ?f ! 1 = Some 50" "(0::rat) < 50"
    and p: "1 < length (unit_prices ?f)" "unit_prices ?f ! 1 = Some (25 / 2)" "(0::rat) \<le> 25 / 2"
    by (simp_all add: form_of_def)
  have row: "meat_items ?d 1 = Some ?beef"
    by (simp add: deduct_stock_def sample_db_def
          fsub_def fl_examples)
  have over: "mi_stock_quantity ?beef < 50" by simp
  from new_sale_insufficient_stock[OF k earlier id q p row over,
      of "''2025-03-01T10:00:00''" 7]
  have "new_sale ''2025-03-01T10:00:00'' 7 ?f ?d
     = (Rejected ''Not enough stock for Beef.'', ?d)"
    by simp
  moreover from earlier
  have "line_valid (meat_items ?d) (quantities ?f) (unit_prices ?f) 0 (item_ids ?f ! 0)"
    by simp
  ultimately show ?thesis using k row by blast
qed

text \<open>
  C7, as stated, fails. Asking 60 of a stock of 50 and asking 50 of a stock of 45 end in
  the very same error, so the error tells neither the quantity asked nor the stock at
  hand; and a line that asks more than the stock at a negative price is rejected for its
  price, not for the stock.
\<close>

theorem new_sale_stock_error_names_item_only:
  "new_sale ''2025-03-01T10:00:00'' 7 (form_of [] [(1, 60, 25 / 2)]) sample_db
     = (Rejected ''Not enough stock for Beef.'', sample_db)
   \<and> new_sale ''2025-03-01T10:00:00'' 7 (form_of [] [(1, 50, 25 / 2)])
       (deduct_stock 5 1 sample_db)
     = (Rejected ''Not enough stock for Beef.'', deduct_stock 5 1 sample_db)
   \<and> new_sale ''2025-03-01T10:00:00'' 7 (form_of [] [(1, 60, - 1)]) sample_db
     = (Rejected ''Quantity must be positive and price must be non-negative.'', sample_db)"
  by (simp add: new_sale_def form_of_def check_line_def deduct_stock_def sample_db_def
          fsub_def fl_examples)


subsection \<open>Recorded sales\<close>

text \<open>
  C4, as amended. When a sale is recorded, exactly one row is added to \<^verbatim>\<open>sales\<close>,
  carrying the returned id, and the rows added to \<^verbatim>\<open>sale_items\<close> are the lines of the
  request, in order; each of them carries the id of the sale and a line total that is the
  product of its quantity and its unit price rounded to a double, and the total amount
  of the sale is what adding these line totals to 0, one after the other and rounding
  each sum to a double, gives.
\<close>

theorem new_sale_totals_rounded:
  assumes "new_sale now_iso user_id form d = (Recorded sale_id, d')"
  shows "\<exists>s rows. sales d' = sales d @ [s] \<and> s_id s = sale_id
     \<and> sale_items d' = sale_items d @ rows
     \<and> map (\<lambda>r. (si_meat_item_id r, si_quantity r, si_unit_price r)) rows = requested_lines form
     \<and> (\<forall>r \<in> set rows. si_sale_id r = sale_id
           \<and> si_line_total r = fmul (si_quantity r) (si_unit_price r))
     \<and> s_total_amount s
         = foldl fadd 0 (map (\<lambda>r. fmul (si_quantity r) (si_unit_price r)) rows)"
proof -
  let ?lis = "accepted (meat_items d) (quantities form) (unit_prices form)
                (enumerate 0 (item_ids form))"
  let ?rows = "rows_of sale_id (sale_items_seq d) ?lis"
  let ?s = "\<lparr>s_id = sale_id, s_sale_datetime = now_iso, s_user_id = user_id,
             s_customer_name =
               (if customer_name form = [] then None else Some (customer_name form)),
             s_total_amount = foldl fadd 0 (map li_line_total ?lis)\<rparr>"
  have tot: "\<forall>li \<in> set ?lis. li_line_total li = fmul (li_quantity li) (li_unit_price li)"
    by (simp add: accepted_line_total)
  from new_sale_Recorded[OF assms]
  have ps: "persist_sale now_iso user_id (customer_name form) ?lis
              (foldl fadd 0 (map li_line_total ?lis)) d = (sale_id, d')"
    and keys: "map line_key ?lis = requested_lines form"
    by simp_all
  from ps have d': "d' = persist_lines sale_id ?lis
      (d\<lparr>sales := sales d @ [?s], sales_seq := sale_id\<rparr>)"
    by (auto simp: persist_sale_result)
  have each: "\<forall>r \<in> set ?rows. si_sale_id r = sale_id
      \<and> si_line_total r = fmul (si_quantity r) (si_unit_price r)"
    using rows_of_sale_id rows_of_line_total[OF tot] by blast
  then have "map (\<lambda>r. fmul (si_quantity r) (si_unit_price r)) ?rows = map si_line_total ?rows"
    by simp
  then have total: "s_total_amount ?s
      = foldl fadd 0 (map (\<lambda>r. fmul (si_quantity r) (si_unit_price r)) ?rows)"
    by (simp add: rows_of_totals)
  have "sales d' = sales d @ [?s]"
    by (simp add: d' persist_lines_sales)
  moreover have "s_id ?s = sale_id" by simp
  moreover have "sale_items d' = sale_items d @ ?rows"
    by (simp add: d' persist_lines_sale_items)
  moreover have "map (\<lambda>r. (si_meat_item_id r, si_quantity r, si_unit_price r)) ?rows
      = requested_lines form"
    by (simp add: rows_of_keys keys)
  ultimately show ?thesis using each total by blast
qed

theorem new_sale_totals_rounded_witness:
  "fst (new_sale ''2025-03-01T10:00:00'' 7 (form_of [] [(1, 5, 25 / 2), (2, 2, 6)]) sample_db)
     = Recorded 1
   \<and> (\<exists>s rows.
        sales (snd (new_sale ''2025-03-01T10:00:00'' 7
                 (form_of [] [(1, 5, 25 / 2), (2, 2, 6)]) sample_db)) = [s]
      \<and> s_id s = 1 \<and> s_total_amount s = 149 / 2
      \<and> sale_items (snd (new_sale ''2025-03-01T10:00:00'' 7
                 (form_of [] [(1, 5, 25 / 2), (2, 2, 6)]) sample_db)) = rows
      \<and> map si_line_total rows = [125 / 2, 12])"
proof -
  let ?r = "new_sale ''2025-03-01T10:00:00'' 7 (form_of [] [(1, 5, 25 / 2), (2, 2, 6)]) sample_db"
  have f: "fst ?r = Recorded 1"
    by (simp add: view_defs)
  then have h: "?r = (Recorded 1, snd ?r)"
    by (simp add: prod_eq_iff)
  have rl: "requested_lines (form_of [] [(1, 5, 25 / 2), (2, 2, 6)]) = [(1, 5, 25 / 2), (2, 2, 6)]"
    by (simp add: requested_lines_def form_line_def form_of_def)
  from new_sale_totals_rounded[OF h] obtain s rows where
    s: "sales (snd ?r) = sales sample_db @ [s]" "s_id s = 1"
    and rows: "sale_items (snd ?r) = sale_items sample_db @ rows"
    and keys: "map (\<lambda>r. (si_meat_item_id r, si_quantity r, si_unit_price r)) rows
        = requested_lines (form_of [] [(1, 5, 25 / 2), (2, 2, 6)])"
    and each: "\<forall>r \<in> set rows. si_sale_id r = 1
        \<and> si_line_total r = fmul (si_quantity r) (si_unit_price r)"
    and total: "s_total_amount s
        = foldl fadd 0 (map (\<lambda>r. fmul (si_quantity r) (si_unit_price r)) rows)"
    by blast
  from keys rl obtain r1 r2 where r12: "rows = [r1, r2]"
    "si_quantity r1 = 5" "si_unit_price r1 = 25 / 2" "si_quantity r2 = 2" "si_unit_price r2 = 6"
    by auto
  with each total have "s_total_amount s = 149 / 2" "map si_line_total rows = [125 / 2, 12]"
    by (simp_all add: fmul_def fadd_def fl_examples)
  with s rows f show ?thesis
    by (simp add: sample_db_def)
qed

text \<open>
  C4, as stated, fails. The quantity 0.1 is the double 3602879701896397 / 36028797018963968;
  sold at
  a price of 3, the line total and the total amount stored are the double
  1351079888211149 / 4503599627370496 (0.30000000000000004), which is not the product of the stored
  quantity and price.
\<close>

theorem new_sale_line_total_not_exact:
  "fl (1 / 10) = 3602879701896397 / 36028797018963968
   \<and> fst (new_sale ''2025-03-01T10:00:00'' 7
            (form_of [] [(1, 3602879701896397 / 36028797018963968, 3)]) sample_db) = Recorded 1
   \<and> map si_quantity (sale_items (snd (new_sale ''2025-03-01T10:00:00'' 7
            (form_of [] [(1, 3602879701896397 / 36028797018963968, 3)]) sample_db)))
       = [3602879701896397 / 36028797018963968]
   \<and> map si_unit_price (sale_items (snd (new_sale ''2025-03-01T10:00:00'' 7
            (form_of [] [(1, 3602879701896397 / 36028797018963968, 3)]) sample_db))) = [3]
   \<and> map si_line_total (sale_items (snd (new_sale ''2025-03-01T10:00:00'' 7
            (form_of [] [(1, 3602879701896397 / 36028797018963968, 3)]) sample_db)))
       = [1351079888211149 / 4503599627370496]
   \<and> map s_total_amount (sales (snd (new_sale ''2025-03-01T10:00:00'' 7
            (form_of [] [(1, 3602879701896397 / 36028797018963968, 3)]) sample_db)))
       = [1351079888211149 / 4503599627370496]
   \<and> (1351079888211149 / 4503599627370496 :: rat)
       \<noteq> 3602879701896397 / 36028797018963968 * 3"
proof -
  have a: "fl (1 / 10) = 3602879701896397 / 36028797018963968"
    by code_simp
  have b: "fl (1351079888211149 / 4503599627370496) = 1351079888211149 / 4503599627370496"
    by code_simp
  have c: "fl (10808639105689191 / 36028797018963968) = 1351079888211149 / 4503599627370496"
    by code_simp
  show ?thesis
    by (simp add: view_defs a b c)
qed

text \<open>
  C5, as amended. When a sale is recorded, every item of the catalog keeps its name, unit
  and price, and its stock is what subtracting from it the quantities the lines of the
  request ask of it, one after the other in the order of the lines and rounding each
  difference to a double, gives; an item no line names is unchanged, and no item appears
  or disappears. Selling 5 of an item with stock 50 leaves exactly 45.
\<close>

theorem new_sale_stock_frame_rounded:
  assumes "new_sale now_iso user_id form d = (Recorded sale_id, d')"
  shows "meat_items d' i =
     map_option (\<lambda>r. r\<lparr>mi_stock_quantity :=
         foldl fsub (mi_stock_quantity r) (requested_quantities form i)\<rparr>)
       (meat_items d i)
   \<and> (i \<notin> fst ` set (requested_lines form) \<longrightarrow> meat_items d' i = meat_items d i)"
proof -
  let ?lis = "accepted (meat_items d) (quantities form) (unit_prices form)
                (enumerate 0 (item_ids form))"
  from new_sale_Recorded[OF assms]
  have d': "d' = persist_lines (sales_seq d + 1) ?lis
       (d\<lparr>sales := sales d @ [\<lparr>s_id = sales_seq d + 1, s_sale_datetime = now_iso,
               s_user_id = user_id,
               s_customer_name =
                 (if customer_name form = [] then None else Some (customer_name form)),
               s_total_amount = foldl fadd 0 (map li_line_total ?lis)\<rparr>],
           sales_seq := sales_seq d + 1\<rparr>)"
    and keys: "map line_key ?lis = requested_lines form"
    by (auto simp add: persist_sale_result)
  have eq: "meat_items d' i =
     map_option (\<lambda>r. r\<lparr>mi_stock_quantity :=
         foldl fsub (mi_stock_quantity r) (requested_quantities form i)\<rparr>)
       (meat_items d i)"
    unfolding requested_quantities_def keys[symmetric] quantities_line_key[symmetric]
    by (subst d') (simp add: persist_lines_meat_items)
  have "meat_items d' i = meat_items d i" if "i \<notin> fst ` set (requested_lines form)"
    using eq requested_quantities_unreferenced[OF that]
    by (cases "meat_items d i") simp_all
  with eq show ?thesis by blast
qed

theorem new_sale_stock_frame_rounded_witness:
  "fst (new_sale ''2025-03-01T10:00:00'' 7 (form_of [] [(1, 5, 25 / 2)]) sample_db) = Recorded 1
   \<and> meat_items (snd (new_sale ''2025-03-01T10:00:00'' 7 (form_of [] [(1, 5, 25 / 2)]) sample_db)) 1
       = Some \<lparr>mi_name = ''Beef'', mi_unit = ''kg'', mi_price_per_unit = 25 / 2,
               mi_stock_quantity = 45\<rparr>
   \<and> 2 \<notin> fst ` set (requested_lines (form_of [] [(1, 5, 25 / 2)]))
   \<and> meat_items (snd (new_sale ''2025-03-01T10:00:00'' 7 (form_of [] [(1, 5, 25 / 2)]) sample_db)) 2
       = meat_items sample_db 2"
proof -
  let ?f = "form_of [] [(1, 5, 25 / 2)]"
  let ?r = "new_sale ''2025-03-01T10:00:00'' 7 ?f sample_db"
  have f: "fst ?r = Recorded 1"
    by (simp add: view_defs)
  then have h: "?r = (Recorded 1, snd ?r)"
    by (simp add: prod_eq_iff)
  have rl: "requested_lines ?f = [(1, 5, 25 / 2)]"
    by (simp add: requested_lines_def form_line_def form_of_def)
  then have unref: "2 \<notin> fst ` set (requested_lines ?f)" by simp
  have "meat_items (snd ?r) 1
       = Some \<lparr>mi_name = ''Beef'', mi_unit = ''kg'', mi_price_per_unit = 25 / 2,
               mi_stock_quantity = 45\<rparr>"
    using new_sale_stock_frame_rounded[OF h, of 1]
    by (simp add: requested_quantities_def rl sample_db_def fsub_def fl_examples)
  moreover have "meat_items (snd ?r) 2 = meat_items sample_db 2"
    using new_sale_stock_frame_rounded[OF h, of 2] unref by blast
  ultimately show ?thesis using f unref by blast
qed

text \<open>
  C5, as stated, fails. The quantity 0.3 is the double
  5404319552844595 / 18014398509481984; taken
  from a stock of 50 it leaves the double 3497326585629901 / 70368744177664, which is not 50 minus
  the quantity.
\<close>

theorem new_sale_stock_decrease_not_exact:
  "fl (3 / 10) = 5404319552844595 / 18014398509481984
   \<and> map_option mi_stock_quantity (meat_items sample_db 1) = Some 50
   \<and> fst (new_sale ''2025-03-01T10:00:00'' 7
            (form_of [] [(1, 5404319552844595 / 18014398509481984, 25 / 2)]) sample_db)
       = Recorded 1
   \<and> map_option mi_stock_quantity
       (meat_items (snd (new_sale ''2025-03-01T10:00:00'' 7
            (form_of [] [(1, 5404319552844595 / 18014398509481984, 25 / 2)]) sample_db)) 1)
       = Some (3497326585629901 / 70368744177664)
   \<and> (3497326585629901 / 70368744177664 :: rat)
       \<noteq> 50 - 5404319552844595 / 18014398509481984"
proof -
  have a: "fl (3 / 10) = 5404319552844595 / 18014398509481984"
    by code_simp
  have c: "fl (895315605921254605 / 18014398509481984) = 3497326585629901 / 70368744177664"
    by code_simp
  show ?thesis
    by (simp add: view_defs a c)
qed

text \<open>
  C10. A request whose list of lines is not empty but whose item ids are all blank is not
  rejected: every line is skipped and the sale is recorded, with one new row of \<^verbatim>\<open>sales\<close>
  whose total amount is 0, no new row of \<^verbatim>\<open>sale_items\<close> and no change of stock.
\<close>

theorem new_sale_all_blank_records_empty_sale:
  assumes "item_ids form \<noteq> []" and "\<forall>x \<in> set (item_ids form). x = Blank"
  shows "new_sale now_iso user_id form d =
    (Recorded (sales_seq d + 1),
     d\<lparr>sales := sales d @
          [\<lparr>s_id = sales_seq d + 1, s_sale_datetime = now_iso, s_user_id = user_id,
            s_customer_name =
              (if customer_name form = [] then None else Some (customer_name form)),
            s_total_amount = 0\<rparr>],
       sales_seq := sales_seq d + 1\<rparr>)"
proof -
  have "\<forall>p \<in> set (enumerate 0 (item_ids form)). snd p = Blank"
    using assms(2) by (auto simp: in_set_enumerate_eq)
  from line_loop_blank[OF this] assms(1) show ?thesis
    by (simp add: new_sale_def persist_sale_result)
qed

theorem new_sale_all_blank_records_empty_sale_witness:
  "item_ids \<lparr>customer_name = ''Asha'', item_ids = [Blank, Blank], quantities = [],
             unit_prices = []\<rparr> \<noteq> []
   \<and> set (item_ids \<lparr>customer_name = ''Asha'', item_ids = [Blank, Blank],
             quantities = [], unit_prices = []\<rparr>) = {Blank}
   \<and> new_sale ''2025-03-01T10:00:00'' 7
       \<lparr>customer_name = ''Asha'', item_ids = [Blank, Blank], quantities = [], unit_prices = []\<rparr>
       sample_db
     = (Recorded 1,
        sample_db\<lparr>sales := [\<lparr>s_id = 1, s_sale_datetime = ''2025-03-01T10:00:00'', s_user_id = 7,
                     s_customer_name = Some ''Asha'', s_total_amount = 0\<rparr>],
                  sales_seq := 1\<rparr>)"
proof -
  let ?f = "\<lparr>customer_name = ''Asha'', item_ids = [Blank, Blank], quantities = [],
             unit_prices = []\<rparr>"
  have ne: "item_ids ?f \<noteq> []" by simp
  have blank: "\<forall>x \<in> set (item_ids ?f). x = Blank" by simp
  from new_sale_all_blank_records_empty_sale[OF ne blank, of "''2025-03-01T10:00:00''" 7 sample_db]
  have "new_sale ''2025-03-01T10:00:00'' 7 ?f sample_db
     = (Recorded 1,
        sample_db\<lparr>sales := [\<lparr>s_id = 1, s_sale_datetime = ''2025-03-01T10:00:00'', s_user_id = 7,
                     s_customer_name = Some ''Asha'', s_total_amount = 0\<rparr>],
                  sales_seq := 1\<rparr>)"
    by (simp add: sample_db_def)
  moreover have "set (item_ids ?f) = {Blank}" by simp
  ultimately show ?thesis using ne by blast
qed

end
